theory Spec2Isabelle
  imports Complex_Main
begin

section \<open>JavaScript values and strings\<close>

text \<open>
  The handlers work on whatever \<^verbatim>\<open>JSON.parse\<close> returns, and test it by truthiness, so
  the request is modelled as a JavaScript value and not as the \<^verbatim>\<open>LogRecord\<close> interface
  the TypeScript source casts it to. Numbers are integers (the data model's timestamp is
  integer epoch milliseconds). A string is a list of code units below 256. An object is
  the list of its properties, each name once.
\<close>

datatype jsval =
    JUndefined
  | JNull
  | JBool bool
  | JNum int
  | JStr string
  | JArr "jsval list"
  | JObj "(string \<times> jsval) list"

text \<open>\<^verbatim>\<open>!v\<close> is \<open>\<not> truthy v\<close>.\<close>

fun truthy :: "jsval \<Rightarrow> bool" where
  "truthy JUndefined = False"
| "truthy JNull = False"
| "truthy (JBool b) = b"
| "truthy (JNum n) = (n \<noteq> 0)"
| "truthy (JStr s) = (s \<noteq> [])"
| "truthy (JArr xs) = True"
| "truthy (JObj kvs) = True"

text \<open>
  \<^verbatim>\<open>data.name\<close> for one of the six field names of a request, on a value other than
  \<^verbatim>\<open>null\<close> and \<^verbatim>\<open>undefined\<close> (there the access throws a TypeError, which the callers
  test first). Only an object has such a property.
\<close>

fun fld :: "jsval \<Rightarrow> string \<Rightarrow> jsval" where
  "fld (JObj kvs) k = (case map_of kvs k of None \<Rightarrow> JUndefined | Some v \<Rightarrow> v)"
| "fld v k = JUndefined"

text \<open>\<^verbatim>\<open>s.split(c)\<close> for a one-character separator.\<close>

fun split_on :: "char \<Rightarrow> string \<Rightarrow> string list" where
  "split_on c [] = [[]]"
| "split_on c (x # xs) =
     (if x = c then [] # split_on c xs
      else (case split_on c xs of [] \<Rightarrow> [[x]] | y # ys \<Rightarrow> (x # y) # ys))"

text \<open>\<^verbatim>\<open>xs.join(sep)\<close> on strings.\<close>

fun join :: "string \<Rightarrow> string list \<Rightarrow> string" where
  "join sep [] = []"
| "join sep [x] = x"
| "join sep (x # y # ys) = x @ sep @ join sep (y # ys)"

text \<open>
  Decimal digits of a natural number, and a number in a template string. JavaScript
  writes an integer in decimal digits below \<open>10\<^sup>2\<^sup>1\<close> in magnitude and in an exponent
  form (\<^verbatim>\<open>1e+21\<close>) from there on; the exponent form is not spelled out here, it is
  whatever \<open>exponent_form\<close> is.
\<close>

fun digits :: "nat \<Rightarrow> string" where
  "digits n =
     (if n < 10 then [char_of (48 + n)]
      else digits (n div 10) @ [char_of (48 + n mod 10)])"

declare digits.simps [simp del]

definition exponent_form :: "int \<Rightarrow> string" where
  "exponent_form = undefined"

definition num_str :: "int \<Rightarrow> string" where
  "num_str n =
     (if \<bar>n\<bar> \<ge> 10 ^ 21 then exponent_form n
      else if n < 0 then CHR ''-'' # digits (nat (- n)) else digits (nat n))"

text \<open>
  \<^verbatim>\<open>String(v)\<close>, as a template string and \<^verbatim>\<open>RegExp.test\<close> apply it. An array joins its
  elements with a comma, \<^verbatim>\<open>null\<close> and \<^verbatim>\<open>undefined\<close> elements as the empty string. An
  object is taken to have no property named \<^verbatim>\<open>toString\<close> of its own (with one, the
  conversion throws a TypeError).
\<close>

fun to_str :: "jsval \<Rightarrow> string" where
  "to_str JUndefined = ''undefined''"
| "to_str JNull = ''null''"
| "to_str (JBool b) = (if b then ''true'' else ''false'')"
| "to_str (JNum n) = num_str n"
| "to_str (JStr s) = s"
| "to_str (JArr xs) =
     join '','' (map (\<lambda>x. if x = JNull \<or> x = JUndefined then [] else to_str x) xs)"
| "to_str (JObj kvs) = ''[object Object]''"

section \<open>Identifier checks (lambda/src/utils, lambda/src/index.ts)\<close>

text \<open>
  \<^verbatim>\<open>isValidId\<close>: \<^verbatim>\<open>if (!id || typeof id !== 'string') return false;\<close> then
  \<^verbatim>\<open>parts.length === 2 && parts[0].length > 0 && parts[1].length > 0\<close>.
\<close>

fun isValidId :: "jsval \<Rightarrow> bool" where
  "isValidId (JStr s) =
     (s \<noteq> [] \<and>
      (case split_on CHR ''-'' s of
         [a, b] \<Rightarrow> length a > 0 \<and> length b > 0
       | _ \<Rightarrow> False))"
| "isValidId v = False"

text \<open>\<^verbatim>\<open>getNamespaceFromId\<close>: \<^verbatim>\<open>id.split('-')[0]\<close>; a split is never empty.\<close>

definition getNamespaceFromId :: "string \<Rightarrow> string" where
  "getNamespaceFromId s = (case split_on CHR ''-'' s of [] \<Rightarrow> [] | a # _ \<Rightarrow> a)"

text \<open>\<^verbatim>\<open>validateId\<close>: \<^verbatim>\<open>/^publisher-\d+$/.test(id)\<close>.\<close>

definition is_digit :: "char \<Rightarrow> bool" where
  "is_digit c = (48 \<le> (of_char c :: nat) \<and> (of_char c :: nat) \<le> 57)"

definition validateId :: "jsval \<Rightarrow> bool" where
  "validateId v =
     (let s = to_str v in
      take 10 s = ''publisher-'' \<and> drop 10 s \<noteq> [] \<and> list_all is_digit (drop 10 s))"

text \<open>\<^verbatim>\<open>xs.indexOf(x)\<close> (\<open>None\<close> is \<^verbatim>\<open>-1\<close>) and \<^verbatim>\<open>xs[i]\<close> (\<open>None\<close> is \<^verbatim>\<open>undefined\<close>).\<close>

fun index_of :: "'a list \<Rightarrow> 'a \<Rightarrow> nat option" where
  "index_of [] x = None"
| "index_of (y # ys) x =
     (if y = x then Some 0 else (case index_of ys x of None \<Rightarrow> None | Some i \<Rightarrow> Some (Suc i)))"

fun nth_opt :: "'a list \<Rightarrow> nat \<Rightarrow> 'a option" where
  "nth_opt [] i = None"
| "nth_opt (x # xs) 0 = Some x"
| "nth_opt (x # xs) (Suc i) = nth_opt xs i"

text \<open>
  White space as \<^verbatim>\<open>trim\<close> and \<^verbatim>\<open>parseInt\<close> skip it, among the code units below 256:
  tab, line feed, vertical tab, form feed, carriage return, space, no-break space.
\<close>

definition is_ws :: "char \<Rightarrow> bool" where
  "is_ws c = ((of_char c :: nat) \<in> {9, 10, 11, 12, 13, 32, 160})"

definition trim :: "string \<Rightarrow> string" where
  "trim s = rev (dropWhile is_ws (rev (dropWhile is_ws s)))"

definition dec_val :: "string \<Rightarrow> nat" where
  "dec_val ds = foldl (\<lambda>a c. 10 * a + (of_char c - 48)) 0 ds"

text \<open>
  \<^verbatim>\<open>parseInt(s, 10)\<close>: leading white space, an optional sign, then the longest run of
  digits; \<open>None\<close> is \<^verbatim>\<open>NaN\<close>. The value is the integer the digits spell; JavaScript
  rounds a long one to the nearest number it has, which does not change how it compares
  with a clock of milliseconds.
\<close>

definition parseInt10 :: "string \<Rightarrow> int option" where
  "parseInt10 s =
     (let t = dropWhile is_ws s;
          neg = (take 1 t = ''-'');
          u = (if take 1 t = ''-'' \<or> take 1 t = ''+'' then drop 1 t else t);
          ds = takeWhile is_digit u
      in if ds = [] then None
         else Some (if neg then - int (dec_val ds) else int (dec_val ds)))"

section \<open>The handler's surroundings\<close>

text \<open>
  What a handler invocation reads from outside: the environment variable, the library
  calls (\<^verbatim>\<open>JSON.parse\<close>, \<^verbatim>\<open>new URL(u).hostname\<close>, csv-parse's \<^verbatim>\<open>parse\<close>, each
  \<open>None\<close> when it throws), the number a string other than a short run of digits
  converts to when it is compared with a number, the clock (\<^verbatim>\<open>Date.now()\<close>, an integer
  of milliseconds), and the object store:
  what \<^verbatim>\<open>getObject\<close> answers for a key (an error, or the \<^verbatim>\<open>Body\<close>, which may be
  undefined) and whether the n-th \<^verbatim>\<open>putObject\<close> of the invocation succeeds.
\<close>

text \<open>
  A JavaScript number: not a number, an infinity, or a finite value. \<^verbatim>\<open>x > n\<close> for a
  number \<open>x\<close> and the clock \<open>n\<close> is false for \<^verbatim>\<open>NaN\<close>, and the order of the values
  otherwise.
\<close>

datatype js_number = NaN | PosInfinity | NegInfinity | Finite real

fun greater_than :: "js_number \<Rightarrow> int \<Rightarrow> bool" where
  "greater_than NaN n = False"
| "greater_than PosInfinity n = True"
| "greater_than NegInfinity n = False"
| "greater_than (Finite x) n = (real_of_int n < x)"

datatype s3_error = NoSuchKey | OtherError

record csv_row =
  segments :: "string option"
  expire_timestamp :: "string option"

record env =
  id_folder_var :: "string option"
  json_parse :: "string \<Rightarrow> jsval option"
  url_hostname :: "string \<Rightarrow> string option"
  csv_parse :: "string \<Rightarrow> csv_row list option"
  to_number :: "string \<Rightarrow> js_number"
  date_now :: int
  s3_get :: "string \<Rightarrow> s3_error + string option"
  s3_put_ok :: "nat \<Rightarrow> bool"

text \<open>The calls made on the store, in order, each with whether it succeeded.\<close>

datatype s3_call = GetObject string bool | PutObject string string bool

record event =
  httpMethod :: string
  ev_body :: "string option"

datatype resp_body = Empty | Success jsval "string option list" | Failure string

record response =
  statusCode :: nat
  result :: resp_body

text \<open>\<^verbatim>\<open>process.env.ID_FOLDER || 'newspassid'\<close>.\<close>

definition ID_FOLDER :: "env \<Rightarrow> string" where
  "ID_FOLDER e =
     (case id_folder_var e of
        None \<Rightarrow> ''newspassid''
      | Some s \<Rightarrow> if s = [] then ''newspassid'' else s)"

definition errorResponse :: "nat \<Rightarrow> string \<Rightarrow> response" where
  "errorResponse code message = \<lparr>statusCode = code, result = Failure message\<rparr>"

definition missing_fields :: string where
  "missing_fields =
     ''Missing required fields. All requests must include id, timestamp, url, and consentString.''"

text \<open>
  \<^verbatim>\<open>getDomainFromUrl\<close>: \<^verbatim>\<open>new URL(url).hostname.replace(/^www\./, '')\<close>, and
  \<^verbatim>\<open>'unknown'\<close> when the constructor throws.
\<close>

definition getDomainFromUrl :: "env \<Rightarrow> jsval \<Rightarrow> string" where
  "getDomainFromUrl e url =
     (case url_hostname e (to_str url) of
        None \<Rightarrow> ''unknown''
      | Some domain \<Rightarrow> if take 4 domain = ''www.'' then drop 4 domain else domain)"

text \<open>A field between double quotes, and a list of segments joined.\<close>

definition quoted :: "string \<Rightarrow> string" where
  "quoted s = CHR 0x22 # s @ [CHR 0x22]"

definition join_segments :: "string \<Rightarrow> string option list \<Rightarrow> string" where
  "join_segments sep segs = join sep (map (\<lambda>x. case x of None \<Rightarrow> [] | Some s \<Rightarrow> s) segs)"

definition join_array :: "string \<Rightarrow> jsval list \<Rightarrow> string" where
  "join_array sep xs =
     join sep (map (\<lambda>x. if x = JNull \<or> x = JUndefined then [] else to_str x) xs)"

text \<open>\<^verbatim>\<open>data.previousId || ''\<close> in a template string.\<close>

definition previous_or_empty :: "jsval \<Rightarrow> string" where
  "previous_or_empty data =
     (if truthy (fld data ''previousId'') then to_str (fld data ''previousId'') else [])"

text \<open>The mapping record and where it goes.\<close>

definition mappingContent :: "jsval \<Rightarrow> string" where
  "mappingContent data =
     ''oldId,newId,timestamp'' @ [CHR 0x0A] @
     quoted (to_str (fld data ''previousId'')) @ '','' @ quoted (to_str (fld data ''id'')) @
     '','' @ to_str (fld data ''timestamp'')"

definition mappingKey :: "env \<Rightarrow> string \<Rightarrow> jsval \<Rightarrow> string" where
  "mappingKey e namespace data =
     ID_FOLDER e @ ''/'' @ namespace @ ''/mappings/'' @ to_str (fld data ''previousId'') @ ''.csv''"

definition fileKey :: "env \<Rightarrow> string \<Rightarrow> string \<Rightarrow> jsval \<Rightarrow> string" where
  "fileKey e namespace domain data =
     ID_FOLDER e @ ''/'' @ namespace @ ''/'' @ domain @ ''/'' @ to_str (fld data ''id'') @
     ''/'' @ to_str (fld data ''timestamp'') @ ''.csv''"

definition csv_header :: string where
  "csv_header = ''id,timestamp,url,consentString,previousId,segments,publisherSegments''"

section \<open>The TypeScript handler (lambda/src/index.ts, lines 1 to 169)\<close>

text \<open>
  \<^verbatim>\<open>getValidSegments(segmentsFile)\<close>: \<open>None\<close> when it throws. It catches every error of
  the read and of the parse, logs it and throws it again. csv-parse gives each column as
  a string, which \<^verbatim>\<open>record.expire_timestamp > now\<close> converts to a number; a column the
  header does not name is undefined, which converts to \<^verbatim>\<open>NaN\<close>.
\<close>

text \<open>
  The number a string converts to. A string of one to fifteen decimal digits converts to
  the integer it spells, which a JavaScript number holds exactly; for any other string
  the conversion is the surroundings' \<open>to_number\<close>.
\<close>

definition plain_digits :: "string \<Rightarrow> bool" where
  "plain_digits s = (s \<noteq> [] \<and> list_all is_digit s \<and> length s \<le> 15)"

definition string_to_number :: "env \<Rightarrow> string \<Rightarrow> js_number" where
  "string_to_number e s =
     (if plain_digits s then Finite (real (dec_val s)) else to_number e s)"

definition expires_after :: "env \<Rightarrow> csv_row \<Rightarrow> bool" where
  "expires_after e r =
     greater_than
       (case expire_timestamp r of None \<Rightarrow> NaN | Some s \<Rightarrow> string_to_number e s)
       (date_now e)"

definition getValidSegments_ts :: "env \<Rightarrow> string \<Rightarrow> string option list option \<times> s3_call list" where
  "getValidSegments_ts e segmentsFile =
     (case s3_get e segmentsFile of
        Inl err \<Rightarrow> (None, [GetObject segmentsFile False])
      | Inr None \<Rightarrow> (Some [], [GetObject segmentsFile True])
      | Inr (Some content) \<Rightarrow>
          (case csv_parse e content of
             None \<Rightarrow> (None, [GetObject segmentsFile True])
           | Some records \<Rightarrow>
               (Some (map segments (filter (expires_after e) records)),
                [GetObject segmentsFile True])))"

text \<open>
  \<^verbatim>\<open>data.publisherSegments?.join('|') || ''\<close>: the optional chain stops at null and
  undefined only; any other value that is not an array has no \<^verbatim>\<open>join\<close>, and the call
  throws a TypeError (\<open>None\<close>).
\<close>

fun publisher_joined_ts :: "jsval \<Rightarrow> string option" where
  "publisher_joined_ts JUndefined = Some []"
| "publisher_joined_ts JNull = Some []"
| "publisher_joined_ts (JArr xs) = Some (join_array ''|'' xs)"
| "publisher_joined_ts v = None"

definition csvContent_ts :: "jsval \<Rightarrow> string option list \<Rightarrow> string \<Rightarrow> string" where
  "csvContent_ts data validSegments publisher =
     csv_header @ [CHR 0x0A] @
     quoted (to_str (fld data ''id'')) @ '','' @
     quoted (to_str (fld data ''timestamp'')) @ '','' @
     quoted (to_str (fld data ''url'')) @ '','' @
     quoted (to_str (fld data ''consentString'')) @ '','' @
     quoted (previous_or_empty data) @ '','' @
     quoted (join_segments '','' validSegments) @ '','' @
     quoted publisher"

definition internal_error :: response where
  "internal_error = \<lparr>statusCode = 500, result = Failure ''Internal server error''\<rparr>"

text \<open>
  Lines 113 to 157 of the handler, on a request that passed both validations: the domain,
  the segments, the event record, the mapping record, the answer. An exception anywhere
  ends in the handler's \<^verbatim>\<open>catch\<close>, which answers 500.
\<close>

definition store_ts :: "env \<Rightarrow> jsval \<Rightarrow> response \<times> s3_call list" where
  "store_ts e data =
     (let domain = getDomainFromUrl e (fld data ''url'');
          segmentsFile = ID_FOLDER e @ ''/segments.csv'';
          (read, calls) = getValidSegments_ts e segmentsFile
      in case read of
           None \<Rightarrow> (internal_error, calls)
         | Some validSegments \<Rightarrow>
             (case publisher_joined_ts (fld data ''publisherSegments'') of
                None \<Rightarrow> (internal_error, calls)
              | Some publisher \<Rightarrow>
                  (let csvContent = csvContent_ts data validSegments publisher;
                       key = fileKey e ''publisher'' domain data
                   in if \<not> s3_put_ok e 0
                      then (internal_error, calls @ [PutObject key csvContent False])
                      else if truthy (fld data ''previousId'')
                      then (if \<not> s3_put_ok e 1
                            then (internal_error,
                                  calls @ [PutObject key csvContent True,
                                     PutObject (mappingKey e ''publisher'' data)
                                       (mappingContent data) False])
                            else (\<lparr>statusCode = 200,
                                    result = Success (fld data ''id'') validSegments\<rparr>,
                                  calls @ [PutObject key csvContent True,
                                     PutObject (mappingKey e ''publisher'' data)
                                       (mappingContent data) True]))
                      else (\<lparr>statusCode = 200,
                              result = Success (fld data ''id'') validSegments\<rparr>,
                            calls @ [PutObject key csvContent True]))))"

text \<open>
  \<^verbatim>\<open>handler\<close>: the preflight, the body (absent or empty: the handler throws; not JSON:
  \<^verbatim>\<open>JSON.parse\<close> throws; \<^verbatim>\<open>null\<close>: reading \<^verbatim>\<open>data.id\<close> throws), the required fields,
  the format of the identifier.
\<close>

definition handler_ts :: "env \<Rightarrow> event \<Rightarrow> response \<times> s3_call list" where
  "handler_ts e ev =
     (if httpMethod ev = ''OPTIONS'' then (\<lparr>statusCode = 200, result = Empty\<rparr>, [])
      else case ev_body ev of
          None \<Rightarrow> (internal_error, [])
        | Some b \<Rightarrow>
            if b = [] then (internal_error, [])
            else (case json_parse e b of
                None \<Rightarrow> (internal_error, [])
              | Some data \<Rightarrow>
                  if data = JNull then (internal_error, [])
                  else if \<not> truthy (fld data ''id'') \<or> \<not> truthy (fld data ''timestamp'') \<or>
                          \<not> truthy (fld data ''url'') \<or> \<not> truthy (fld data ''consentString'')
                  then (\<lparr>statusCode = 400, result = Failure missing_fields\<rparr>, [])
                  else if \<not> validateId (fld data ''id'')
                  then (\<lparr>statusCode = 400, result = Failure ''Invalid ID format''\<rparr>, [])
                  else store_ts e data))"

section \<open>The JavaScript handler (lambda/src/index.ts, lines 170 to 396)\<close>

text \<open>
  The loop of \<^verbatim>\<open>getValidSegments\<close> over the lines after the header: a blank line is
  skipped; \<^verbatim>\<open>values[expireIndex]\<close> out of range is undefined, which \<^verbatim>\<open>parseInt\<close> reads
  as the string \<^verbatim>\<open>undefined\<close>; \<^verbatim>\<open>values[segmentIndex]\<close> out of range pushes undefined.
\<close>

fun valid_rows :: "int \<Rightarrow> nat \<Rightarrow> nat \<Rightarrow> string list \<Rightarrow> string option list \<Rightarrow> string option list" where
  "valid_rows currentTime segmentIndex expireIndex [] validSegments = validSegments"
| "valid_rows currentTime segmentIndex expireIndex (l # ls) validSegments =
     (if trim l = [] then valid_rows currentTime segmentIndex expireIndex ls validSegments
      else (let values = split_on CHR '','' l;
                expireTimestamp =
                  parseInt10 (case nth_opt values expireIndex of
                                None \<Rightarrow> ''undefined'' | Some v \<Rightarrow> v)
            in case expireTimestamp of
                 None \<Rightarrow> valid_rows currentTime segmentIndex expireIndex ls validSegments
               | Some t \<Rightarrow>
                   if t > currentTime
                   then valid_rows currentTime segmentIndex expireIndex ls
                          (validSegments @ [nth_opt values segmentIndex])
                   else valid_rows currentTime segmentIndex expireIndex ls validSegments))"



text \<open>
  \<^verbatim>\<open>getValidSegments(namespace, domain, id)\<close>: every error (the read's, or the TypeError
  of an undefined \<^verbatim>\<open>Body\<close>) is caught and answered with the empty list.
\<close>

definition segmentsKey :: "env \<Rightarrow> string \<Rightarrow> string \<Rightarrow> string \<Rightarrow> string" where
  "segmentsKey e namespace domain ident =
     ID_FOLDER e @ ''/'' @ namespace @ ''/'' @ domain @ ''/'' @ ident @ ''/segments.csv''"

definition parse_segments :: "int \<Rightarrow> string \<Rightarrow> string option list" where
  "parse_segments currentTime csvContent =
     (let lines = split_on (CHR 0x0A) csvContent;
          headers = split_on CHR '','' (case lines of [] \<Rightarrow> [] | h # _ \<Rightarrow> h)
      in case (index_of headers ''segments'', index_of headers ''expire_timestamp'') of
           (Some segmentIndex, Some expireIndex) \<Rightarrow>
             valid_rows currentTime segmentIndex expireIndex (tl lines) []
         | _ \<Rightarrow> [])"

definition getValidSegments_js ::
  "env \<Rightarrow> string \<Rightarrow> string \<Rightarrow> string \<Rightarrow> string option list \<times> s3_call list" where
  "getValidSegments_js e namespace domain ident =
     (let key = segmentsKey e namespace domain ident
      in case s3_get e key of
           Inl err \<Rightarrow> ([], [GetObject key False])
         | Inr None \<Rightarrow> ([], [GetObject key True])
         | Inr (Some csvContent) \<Rightarrow>
             (parse_segments (date_now e) csvContent, [GetObject key True]))"

text \<open>
  \<^verbatim>\<open>(body.publisherSegments || []).join('|')\<close>: a falsy value gives the empty array; a
  truthy one that is not an array has no \<^verbatim>\<open>join\<close> (TypeError, \<open>None\<close>).
\<close>

definition publisher_joined_js :: "jsval \<Rightarrow> string option" where
  "publisher_joined_js v =
     (if \<not> truthy v then Some []
      else case v of JArr xs \<Rightarrow> Some (join_array ''|'' xs) | _ \<Rightarrow> None)"

definition csvContent_js :: "jsval \<Rightarrow> string option list \<Rightarrow> string \<Rightarrow> string" where
  "csvContent_js body validSegments publisher =
     csv_header @ [CHR 0x0A] @
     join '',''
       (map quoted
          [to_str (fld body ''id''), to_str (fld body ''timestamp''), to_str (fld body ''url''),
           to_str (fld body ''consentString''), previous_or_empty body,
           join_segments ''|'' validSegments, publisher])"

definition store_js :: "env \<Rightarrow> jsval \<Rightarrow> response \<times> s3_call list" where
  "store_js e body =
     (let namespace = getNamespaceFromId (to_str (fld body ''id''));
          domain = getDomainFromUrl e (fld body ''url'');
          (validSegments, calls) =
             getValidSegments_js e namespace domain (to_str (fld body ''id''));
          key = fileKey e namespace domain body
      in case publisher_joined_js (fld body ''publisherSegments'') of
           None \<Rightarrow> (internal_error, calls)
         | Some publisher \<Rightarrow>
             (let csvContent = csvContent_js body validSegments publisher
              in if \<not> s3_put_ok e 0
                 then (internal_error, calls @ [PutObject key csvContent False])
                 else if truthy (fld body ''previousId'')
                 then (if \<not> s3_put_ok e 1
                       then (internal_error,
                             calls @ [PutObject key csvContent True,
                                PutObject (mappingKey e namespace body)
                                  (mappingContent body) False])
                       else (\<lparr>statusCode = 200,
                               result = Success (fld body ''id'') validSegments\<rparr>,
                             calls @ [PutObject key csvContent True,
                                PutObject (mappingKey e namespace body)
                                  (mappingContent body) True]))
                 else (\<lparr>statusCode = 200,
                         result = Success (fld body ''id'') validSegments\<rparr>,
                       calls @ [PutObject key csvContent True])))"

text \<open>
  \<^verbatim>\<open>exports.handler\<close>: \<^verbatim>\<open>JSON.parse(event.body)\<close> of a null body is \<^verbatim>\<open>null\<close>, and
  reading \<^verbatim>\<open>body.id\<close> of \<^verbatim>\<open>null\<close> throws; there is no preflight branch.
\<close>

definition handler_js :: "env \<Rightarrow> event \<Rightarrow> response \<times> s3_call list" where
  "handler_js e ev =
     (case (case ev_body ev of None \<Rightarrow> Some JNull | Some b \<Rightarrow> json_parse e b) of
        None \<Rightarrow> (errorResponse 500 ''Internal server error'', [])
      | Some body \<Rightarrow>
          if body = JNull then (errorResponse 500 ''Internal server error'', [])
          else if \<not> truthy (fld body ''id'') \<or> \<not> truthy (fld body ''timestamp'') \<or>
                  \<not> truthy (fld body ''url'') \<or> \<not> truthy (fld body ''consentString'')
          then (errorResponse 400 missing_fields, [])
          else if \<not> isValidId (fld body ''id'')
          then (errorResponse 400 ''Invalid ID format'', [])
          else store_js e body)"

section \<open>The client (NewsPassIDImpl.setID)\<close>




record IdPayload =
  ident :: string
  timestamp :: int
  url :: string
  consentString :: string
  previousId :: "string option"
  publisherSegments :: "string list option"





definition nonempty :: "string option \<Rightarrow> bool" where
  "nonempty v = (case v of None \<Rightarrow> False | Some s \<Rightarrow> s \<noteq> [])"






section \<open>The asynchronous loader (part 001)\<close>

text \<open>
  The part of \<^verbatim>\<open>window\<close> the loader touches, the calls made on the real client (method
  and arguments, in order) and whether the 50 ms timer is pending.
\<close>

record loader_state =
  newspassid_q :: "jsval list list option"
  newspass_initialized :: bool
  newspass_segments :: "string list option"
  real_installed :: bool
  real_calls :: "(string \<times> jsval list) list"
  timer_pending :: bool

text \<open>
  The script's own run: \<^verbatim>\<open>window.newspassid_q = window.newspassid_q || []\<close>, and at its
  end \<^verbatim>\<open>window.newspass_initialized = false\<close>.
\<close>

definition loader_run :: "loader_state \<Rightarrow> loader_state" where
  "loader_run w =
     w\<lparr>newspassid_q := (case newspassid_q w of None \<Rightarrow> Some [] | Some q \<Rightarrow> Some q),
       newspass_initialized := False\<rparr>"

text \<open>The stub's \<^verbatim>\<open>setID(id)\<close>: \<^verbatim>\<open>window.newspassid_q.push(['setID', id])\<close>.\<close>

definition stub_setID :: "jsval \<Rightarrow> loader_state \<Rightarrow> loader_state" where
  "stub_setID v w =
     w\<lparr>newspassid_q := map_option (\<lambda>q. q @ [[JStr ''setID'', v]]) (newspassid_q w)\<rparr>"

text \<open>
  The \<^verbatim>\<open>while (queue.length > 0)\<close> loop: an empty item is skipped; \<^verbatim>\<open>item[0]\<close> names
  the method, which is applied to the rest when the real client has a function of that
  name. An exception of the call is caught and logged.
\<close>

fun drain :: "(string \<Rightarrow> bool) \<Rightarrow> jsval list list \<Rightarrow> (string \<times> jsval list) list
    \<Rightarrow> (string \<times> jsval list) list" where
  "drain is_function [] calls = calls"
| "drain is_function (item # queue) calls =
     (case item of
        [] \<Rightarrow> drain is_function queue calls
      | m # params \<Rightarrow>
          if is_function (to_str m)
          then drain is_function queue (calls @ [(to_str m, params)])
          else drain is_function queue calls)"

text \<open>
  \<^verbatim>\<open>script.onload\<close>. \<open>has_create\<close>: \<^verbatim>\<open>window.createNewsPassID\<close> is a function;
  \<open>is_function m\<close>: the real client has a function named \<open>m\<close>; \<open>storedId\<close>: what
  the loader's own \<^verbatim>\<open>getStoredId\<close> returns.
\<close>

definition onload :: "bool \<Rightarrow> (string \<Rightarrow> bool) \<Rightarrow> string option \<Rightarrow> loader_state \<Rightarrow> loader_state" where
  "onload has_create is_function storedId w =
     (if \<not> has_create then w
      else case newspassid_q w of
          None \<Rightarrow> w
        | Some queue \<Rightarrow>
            w\<lparr>newspass_segments := (if nonempty storedId then Some [] else newspass_segments w),
              newspassid_q := Some [],
              real_calls := drain is_function queue (real_calls w),
              real_installed := True,
              timer_pending := (if \<not> newspass_initialized w then True else timer_pending w)\<rparr>)"

text \<open>The timer's callback: \<^verbatim>\<open>realNewsPassID.setID(); window.newspass_initialized = true\<close>.\<close>

definition timer_fires :: "loader_state \<Rightarrow> loader_state" where
  "timer_fires w =
     (if timer_pending w
      then w\<lparr>real_calls := real_calls w @ [(''setID'', [])],
             newspass_initialized := True,
             timer_pending := False\<rparr>
      else w)"

text \<open>
  The four functions of the \<^verbatim>\<open>NewsPassID\<close> interface, which are the ones the stub
  queues; the real client has functions of other names as well.
\<close>

definition interface_function :: "string \<Rightarrow> bool" where
  "interface_function m = (m \<in> set [''setID'', ''getID'', ''getSegments'', ''clearID''])"

section \<open>Reading a trace of calls\<close>

text \<open>The writes of a trace, and the store after it.\<close>

fun puts_of :: "s3_call list \<Rightarrow> (string \<times> string \<times> bool) list" where
  "puts_of [] = []"
| "puts_of (GetObject k ok # cs) = puts_of cs"
| "puts_of (PutObject k v ok # cs) = (k, v, ok) # puts_of cs"

fun store_after :: "(string \<Rightarrow> string option) \<Rightarrow> s3_call list \<Rightarrow> (string \<Rightarrow> string option)" where
  "store_after objs [] = objs"
| "store_after objs (GetObject k ok # cs) = store_after objs cs"
| "store_after objs (PutObject k v ok # cs) = store_after (if ok then objs(k \<mapsto> v) else objs) cs"

text \<open>
  A request that passes both validations of a handler: the four required fields are
  truthy and the identifier has the handler's format.
\<close>

definition required_present :: "jsval \<Rightarrow> bool" where
  "required_present data =
     (truthy (fld data ''id'') \<and> truthy (fld data ''timestamp'') \<and>
      truthy (fld data ''url'') \<and> truthy (fld data ''consentString''))"

definition accepted_ts :: "env \<Rightarrow> event \<Rightarrow> jsval \<Rightarrow> bool" where
  "accepted_ts e ev data =
     (httpMethod ev \<noteq> ''OPTIONS'' \<and>
      (case ev_body ev of None \<Rightarrow> False | Some b \<Rightarrow> b \<noteq> [] \<and> json_parse e b = Some data) \<and>
      data \<noteq> JNull \<and> required_present data \<and> validateId (fld data ''id''))"

definition accepted_js :: "env \<Rightarrow> event \<Rightarrow> jsval \<Rightarrow> bool" where
  "accepted_js e ev data =
     ((case ev_body ev of None \<Rightarrow> False | Some b \<Rightarrow> json_parse e b = Some data) \<and>
      data \<noteq> JNull \<and> required_present data \<and> isValidId (fld data ''id''))"

section \<open>Examples\<close>

definition fresh_window :: loader_state where
  "fresh_window =
     \<lparr>newspassid_q = None, newspass_initialized = False, newspass_segments = None,
      real_installed = False, real_calls = [], timer_pending = False\<rparr>"



definition segment_text :: string where
  "segment_text =
     ''segments,expire_timestamp'' @ [CHR 0x0A] @ ''segA,2000'' @ [CHR 0x0A] @ ''segB,500'' @
     [CHR 0x0A] @ ''segC,1000'' @ [CHR 0x0A] @ ''segD,soon''"

definition example_request :: "jsval \<Rightarrow> string \<Rightarrow> jsval" where
  "example_request ts prev =
     JObj [(''id'', JStr ''publisher-2''), (''timestamp'', ts),
           (''url'', JStr ''https://www.example.com/x''), (''consentString'', JStr ''c''),
           (''previousId'', JStr prev)]"

definition example_text :: "string \<Rightarrow> string \<Rightarrow> string" where
  "example_text ts prev =
     ''{'' @ quoted ''id'' @ '':'' @ quoted ''publisher-2'' @ '','' @
     quoted ''timestamp'' @ '':'' @ ts @ '','' @
     quoted ''url'' @ '':'' @ quoted ''https://www.example.com/x'' @ '','' @
     quoted ''consentString'' @ '':'' @ quoted ''c'' @ '','' @
     quoted ''previousId'' @ '':'' @ quoted prev @ ''}''"

definition example_parse :: "string \<Rightarrow> jsval option" where
  "example_parse s =
     (if s = example_text ''5'' ''publisher-1'' then Some (example_request (JNum 5) ''publisher-1'')
      else if s = example_text ''5'' ''publisher-2''
      then Some (example_request (JNum 5) ''publisher-2'')
      else if s = example_text ''0'' ''publisher-1''
      then Some (example_request (JNum 0) ''publisher-1'')
      else None)"

text \<open>
  Of the strings that are not plain digits the examples convert only \<^verbatim>\<open>soon\<close>, which
  is not a number.
\<close>

definition example_number :: "string \<Rightarrow> js_number" where
  "example_number s = NaN"

definition example_env :: "(string \<Rightarrow> s3_error + string option) \<Rightarrow> (nat \<Rightarrow> bool) \<Rightarrow> env" where
  "example_env get ok =
     \<lparr>id_folder_var = None,
      json_parse = example_parse,
      url_hostname = (\<lambda>u. if u = ''https://www.example.com/x'' then Some ''www.example.com'' else None),
      csv_parse = (\<lambda>s. if s = segment_text
                        then Some [\<lparr>segments = Some ''segA'', expire_timestamp = Some ''2000''\<rparr>,
                                   \<lparr>segments = Some ''segB'', expire_timestamp = Some ''500''\<rparr>,
                                   \<lparr>segments = Some ''segC'', expire_timestamp = Some ''1000''\<rparr>,
                                   \<lparr>segments = Some ''segD'', expire_timestamp = Some ''soon''\<rparr>]
                        else None),
      to_number = example_number,
      date_now = 1000,
      s3_get = get,
      s3_put_ok = ok\<rparr>"

definition example_event :: "string \<Rightarrow> event" where
  "example_event b = \<lparr>httpMethod = ''POST'', ev_body = Some b\<rparr>"

definition stored_segments :: "string \<Rightarrow> s3_error + string option" where
  "stored_segments k = Inr (Some segment_text)"





text \<open>A request whose mapping record gets the key of its event record.\<close>

definition overwrite_request :: jsval where
  "overwrite_request =
     JObj [(''id'', JStr ''publisher-2''), (''timestamp'', JNum 5),
           (''url'', JStr ''http://mappings/''), (''consentString'', JStr ''c''),
           (''previousId'', JStr ''publisher-2/5'')]"

definition overwrite_text :: string where
  "overwrite_text =
     ''{'' @ quoted ''id'' @ '':'' @ quoted ''publisher-2'' @ '','' @
     quoted ''timestamp'' @ '':5,'' @
     quoted ''url'' @ '':'' @ quoted ''http://mappings/'' @ '','' @
     quoted ''consentString'' @ '':'' @ quoted ''c'' @ '','' @
     quoted ''previousId'' @ '':'' @ quoted ''publisher-2/5'' @ ''}''"

definition overwrite_env :: env where
  "overwrite_env =
     (example_env stored_segments (\<lambda>n. True))
       \<lparr>json_parse := (\<lambda>s. if s = overwrite_text then Some overwrite_request else None),
        url_hostname := (\<lambda>u. if u = ''http://mappings/'' then Some ''mappings'' else None)\<rparr>"

section \<open>Splitting at a separator\<close>







section \<open>The format check of the identifier\<close>




section \<open>The loader's default call\<close>

lemma timer_always_scheduled:
  "timer_pending (onload True f sid (stub_setID v (loader_run w)))"
  by (simp add: onload_def stub_setID_def loader_run_def split: option.splits)

text \<open>
  Claim C9: when an explicit \<^verbatim>\<open>setID\<close> call was queued on the stub, the loader issues no
  default \<^verbatim>\<open>setID()\<close> of its own. The code does issue it: nothing sets
  \<^verbatim>\<open>newspass_initialized\<close> when a queued call is replayed, so the timer is always
  started, and the real client gets the queued call and then the default one.
\<close>

theorem loader_issues_default_setID_after_explicit:
  "real_calls (timer_fires (onload True interface_function None
      (stub_setID (JStr ''publisher-1'') (loader_run fresh_window)))) =
   [(''setID'', [JStr ''publisher-1'']), (''setID'', [])]"
  by (simp add: timer_fires_def onload_def stub_setID_def loader_run_def fresh_window_def
      interface_function_def)

section \<open>The previous identifier of an event\<close>



section \<open>The handlers on an accepted request\<close>

lemma handler_ts_accepted: "accepted_ts e ev data \<Longrightarrow> handler_ts e ev = store_ts e data"
  by (auto simp: accepted_ts_def handler_ts_def required_present_def split: option.splits)

lemma handler_js_accepted: "accepted_js e ev data \<Longrightarrow> handler_js e ev = store_js e data"
  by (auto simp: accepted_js_def handler_js_def required_present_def split: option.splits)

lemma handler_ts_200:
  assumes "httpMethod ev \<noteq> ''OPTIONS''" "statusCode (fst (handler_ts e ev)) = 200"
  shows "\<exists>data. accepted_ts e ev data"
  using assms
  by (auto simp: accepted_ts_def handler_ts_def required_present_def internal_error_def
      split: option.splits if_splits)

lemma handler_js_200:
  assumes "statusCode (fst (handler_js e ev)) = 200"
  shows "\<exists>data. accepted_js e ev data"
  using assms
  by (auto simp: accepted_js_def handler_js_def required_present_def errorResponse_def
      split: option.splits if_splits)

lemma getValidSegments_ts_calls:
  "\<exists>ok. snd (getValidSegments_ts e f) = [GetObject f ok]"
  by (auto simp: getValidSegments_ts_def split: sum.splits option.splits)

lemma getValidSegments_js_calls:
  "\<exists>ok. snd (getValidSegments_js e n d i) = [GetObject (segmentsKey e n d i) ok]"
  by (auto simp: getValidSegments_js_def Let_def split: sum.splits option.splits)

lemma store_ts_written:
  assumes "fst (getValidSegments_ts e (ID_FOLDER e @ ''/segments.csv'')) = Some segs"
      and "publisher_joined_ts (fld data ''publisherSegments'') = Some pub"
      and "s3_put_ok e 0"
  shows "store_ts e data =
     (if truthy (fld data ''previousId'') \<and> \<not> s3_put_ok e 1 then internal_error
      else \<lparr>statusCode = 200, result = Success (fld data ''id'') segs\<rparr>,
      snd (getValidSegments_ts e (ID_FOLDER e @ ''/segments.csv'')) @
      PutObject (fileKey e ''publisher'' (getDomainFromUrl e (fld data ''url'')) data)
        (csvContent_ts data segs pub) True #
      (if truthy (fld data ''previousId'')
       then [PutObject (mappingKey e ''publisher'' data) (mappingContent data) (s3_put_ok e 1)]
       else []))"
proof -
  obtain calls where g: "getValidSegments_ts e (ID_FOLDER e @ ''/segments.csv'') = (Some segs, calls)"
    using assms(1) by (cases "getValidSegments_ts e (ID_FOLDER e @ ''/segments.csv'')") simp
  show ?thesis using assms(2,3) by (simp add: store_ts_def Let_def g)
qed

lemma store_js_written:
  assumes "publisher_joined_js (fld data ''publisherSegments'') = Some pub"
      and "s3_put_ok e 0"
  shows "store_js e data =
     (if truthy (fld data ''previousId'') \<and> \<not> s3_put_ok e 1 then internal_error
      else \<lparr>statusCode = 200, result = Success (fld data ''id'')
              (fst (getValidSegments_js e (getNamespaceFromId (to_str (fld data ''id'')))
                 (getDomainFromUrl e (fld data ''url'')) (to_str (fld data ''id''))))\<rparr>,
      snd (getValidSegments_js e (getNamespaceFromId (to_str (fld data ''id'')))
                 (getDomainFromUrl e (fld data ''url'')) (to_str (fld data ''id''))) @
      PutObject (fileKey e (getNamespaceFromId (to_str (fld data ''id'')))
                 (getDomainFromUrl e (fld data ''url'')) data)
        (csvContent_js data
           (fst (getValidSegments_js e (getNamespaceFromId (to_str (fld data ''id'')))
                 (getDomainFromUrl e (fld data ''url'')) (to_str (fld data ''id'')))) pub) True #
      (if truthy (fld data ''previousId'')
       then [PutObject (mappingKey e (getNamespaceFromId (to_str (fld data ''id''))) data)
               (mappingContent data) (s3_put_ok e 1)]
       else []))"
proof -
  obtain segs calls where g: "getValidSegments_js e (getNamespaceFromId (to_str (fld data ''id'')))
                 (getDomainFromUrl e (fld data ''url'')) (to_str (fld data ''id'')) = (segs, calls)"
    by (cases "getValidSegments_js e (getNamespaceFromId (to_str (fld data ''id'')))
                 (getDomainFromUrl e (fld data ''url'')) (to_str (fld data ''id''))") simp
  show ?thesis using assms by (simp add: store_js_def Let_def g)
qed

lemma store_ts_200:
  assumes "statusCode (fst (store_ts e data)) = 200"
  shows "\<exists>segs pub. fst (getValidSegments_ts e (ID_FOLDER e @ ''/segments.csv'')) = Some segs \<and>
          publisher_joined_ts (fld data ''publisherSegments'') = Some pub \<and> s3_put_ok e 0 \<and>
          (truthy (fld data ''previousId'') \<longrightarrow> s3_put_ok e 1)"
  using assms
  by (auto simp: store_ts_def Let_def internal_error_def split: prod.splits option.splits if_splits)

lemma store_js_200:
  assumes "statusCode (fst (store_js e data)) = 200"
  shows "\<exists>pub. publisher_joined_js (fld data ''publisherSegments'') = Some pub \<and> s3_put_ok e 0 \<and>
          (truthy (fld data ''previousId'') \<longrightarrow> s3_put_ok e 1)"
  using assms
  by (auto simp: store_js_def Let_def internal_error_def split: prod.splits option.splits if_splits)




lemma store_after_gets_ts: "store_after objs (snd (getValidSegments_ts e f) @ cs) = store_after objs cs"
  using getValidSegments_ts_calls [of e f] by auto

lemma store_after_gets_js:
  "store_after objs (snd (getValidSegments_js e n d i) @ cs) = store_after objs cs"
  using getValidSegments_js_calls [of e n d i] by auto


section \<open>The example request, evaluated\<close>

lemma example_parse_simps:
  "example_parse (example_text ''5'' ''publisher-1'') = Some (example_request (JNum 5) ''publisher-1'')"
  "example_parse (example_text ''5'' ''publisher-2'') = Some (example_request (JNum 5) ''publisher-2'')"
  "example_parse (example_text ''0'' ''publisher-1'') = Some (example_request (JNum 0) ''publisher-1'')"
  by (simp_all add: example_parse_def example_text_def quoted_def)

lemma example_fields:
  "fld (example_request ts prev) ''id'' = JStr ''publisher-2''"
  "fld (example_request ts prev) ''timestamp'' = ts"
  "fld (example_request ts prev) ''url'' = JStr ''https://www.example.com/x''"
  "fld (example_request ts prev) ''consentString'' = JStr ''c''"
  "fld (example_request ts prev) ''previousId'' = JStr prev"
  "fld (example_request ts prev) ''publisherSegments'' = JUndefined"
  by (simp_all add: example_request_def)

lemma example_ids: "validateId (JStr ''publisher-2'')" "isValidId (JStr ''publisher-2'')"
  "getNamespaceFromId ''publisher-2'' = ''publisher''"
  by (simp_all add: validateId_def is_digit_def getNamespaceFromId_def)

lemma example_accepted:
  "accepted_ts (example_env g k) (example_event (example_text ''5'' ''publisher-1''))
     (example_request (JNum 5) ''publisher-1'')"
  "accepted_ts (example_env g k) (example_event (example_text ''5'' ''publisher-2''))
     (example_request (JNum 5) ''publisher-2'')"
  "accepted_js (example_env g k) (example_event (example_text ''5'' ''publisher-1''))
     (example_request (JNum 5) ''publisher-1'')"
  "accepted_js (example_env g k) (example_event (example_text ''5'' ''publisher-2''))
     (example_request (JNum 5) ''publisher-2'')"
  by (simp_all add: accepted_ts_def accepted_js_def example_env_def example_event_def
      example_parse_simps example_fields example_ids required_present_def)
    (simp_all add: example_text_def example_request_def)

lemma example_env_simps:
  "ID_FOLDER (example_env g k) = ''newspassid''"
  "getDomainFromUrl (example_env g k) (JStr ''https://www.example.com/x'') = ''example.com''"
  "s3_get (example_env g k) = g" "s3_put_ok (example_env g k) = k"
  "date_now (example_env g k) = 1000"
  by (simp_all add: ID_FOLDER_def getDomainFromUrl_def example_env_def)

lemma example_segments_ts:
  "getValidSegments_ts (example_env stored_segments k) ''newspassid/segments.csv'' =
     (Some [Some ''segA''], [GetObject ''newspassid/segments.csv'' True])"
  by (simp add: getValidSegments_ts_def example_env_def stored_segments_def expires_after_def
      string_to_number_def plain_digits_def is_digit_def dec_val_def example_number_def
      segment_text_def)

lemma example_segments_js:
  "parse_segments 1000 segment_text = [Some ''segA'']"
  by (simp add: parse_segments_def segment_text_def trim_def
      parseInt10_def is_ws_def is_digit_def dec_val_def)

lemma num_str_5: "num_str 5 = ''5''"
  by code_simp

lemma example_written_ts:
  assumes "k 0"
  shows "handler_ts (example_env stored_segments k)
           (example_event (example_text ''5'' ''publisher-1'')) =
     (if \<not> k 1 then internal_error
      else \<lparr>statusCode = 200, result = Success (JStr ''publisher-2'') [Some ''segA'']\<rparr>,
      [GetObject ''newspassid/segments.csv'' True,
       PutObject ''newspassid/publisher/example.com/publisher-2/5.csv''
         (csvContent_ts (example_request (JNum 5) ''publisher-1'') [Some ''segA''] []) True,
       PutObject ''newspassid/publisher/mappings/publisher-1.csv''
         (mappingContent (example_request (JNum 5) ''publisher-1'')) (k 1)])"
proof -
  let ?e = "example_env stored_segments k"
  let ?d = "example_request (JNum 5) ''publisher-1''"
  have h: "handler_ts ?e (example_event (example_text ''5'' ''publisher-1'')) = store_ts ?e ?d"
    by (rule handler_ts_accepted) (rule example_accepted)
  have keys: "fileKey ?e ''publisher'' ''example.com'' ?d =
        ''newspassid/publisher/example.com/publisher-2/5.csv''"
      "mappingKey ?e ''publisher'' ?d = ''newspassid/publisher/mappings/publisher-1.csv''"
    by (simp_all add: fileKey_def mappingKey_def example_env_simps example_fields num_str_5)
  show ?thesis
    unfolding h using store_ts_written [of ?e "[Some ''segA'']" ?d "[]"] assms
    by (simp add: example_env_simps example_segments_ts example_fields keys)
qed

lemma example_written_js:
  assumes "k 0"
  shows "handler_js (example_env g k)
           (example_event (example_text ''5'' ''publisher-1'')) =
     (if \<not> k 1 then internal_error
      else \<lparr>statusCode = 200, result = Success (JStr ''publisher-2'')
             (fst (getValidSegments_js (example_env g k) ''publisher'' ''example.com''
                ''publisher-2''))\<rparr>,
      snd (getValidSegments_js (example_env g k) ''publisher'' ''example.com'' ''publisher-2'') @
      [PutObject ''newspassid/publisher/example.com/publisher-2/5.csv''
         (csvContent_js (example_request (JNum 5) ''publisher-1'')
            (fst (getValidSegments_js (example_env g k) ''publisher'' ''example.com''
                ''publisher-2'')) []) True,
       PutObject ''newspassid/publisher/mappings/publisher-1.csv''
         (mappingContent (example_request (JNum 5) ''publisher-1'')) (k 1)])"
proof -
  let ?e = "example_env g k"
  let ?d = "example_request (JNum 5) ''publisher-1''"
  have h: "handler_js ?e (example_event (example_text ''5'' ''publisher-1'')) = store_js ?e ?d"
    by (rule handler_js_accepted) (rule example_accepted)
  have keys: "fileKey ?e ''publisher'' ''example.com'' ?d =
        ''newspassid/publisher/example.com/publisher-2/5.csv''"
      "mappingKey ?e ''publisher'' ?d = ''newspassid/publisher/mappings/publisher-1.csv''"
    by (simp_all add: fileKey_def mappingKey_def example_env_simps example_fields num_str_5)
  show ?thesis
    unfolding h using store_js_written [of ?d "[]" ?e] assms
    by (simp add: example_env_simps example_fields example_ids publisher_joined_js_def keys)
qed



section \<open>Required fields\<close>

text \<open>
  Claim C10: the required fields are tested by truthiness, so a request whose timestamp
  is the number 0, or whose id, url or consent string is the empty string, is answered
  with 400 and the message about missing fields, and the store is neither read nor
  written (the trace of calls is empty). For the TypeScript handler the request is not a
  preflight, which is answered before the body is looked at.
\<close>

theorem falsy_required_field_rejected:
  assumes "ev_body ev = Some b" and "json_parse e b = Some data"
      and "fld data ''timestamp'' = JNum 0 \<or> fld data ''id'' = JStr [] \<or>
           fld data ''url'' = JStr [] \<or> fld data ''consentString'' = JStr []"
  shows "(httpMethod ev \<noteq> ''OPTIONS'' \<and> b \<noteq> [] \<longrightarrow>
            handler_ts e ev = (\<lparr>statusCode = 400, result = Failure missing_fields\<rparr>, [])) \<and>
         handler_js e ev = (\<lparr>statusCode = 400, result = Failure missing_fields\<rparr>, [])"
proof -
  from assms(3) have n: "data \<noteq> JNull" by auto
  from assms(3) have f: "\<not> truthy (fld data ''id'') \<or> \<not> truthy (fld data ''timestamp'') \<or>
      \<not> truthy (fld data ''url'') \<or> \<not> truthy (fld data ''consentString'')" by auto
  show ?thesis using assms(1,2) n f
    by (auto simp: handler_ts_def handler_js_def errorResponse_def)
qed

theorem falsy_required_field_rejected_witness:
  "handler_ts (example_env stored_segments (\<lambda>n. True))
       (example_event (example_text ''0'' ''publisher-1'')) =
     (\<lparr>statusCode = 400, result = Failure missing_fields\<rparr>, []) \<and>
   handler_js (example_env stored_segments (\<lambda>n. True))
       (example_event (example_text ''0'' ''publisher-1'')) =
     (\<lparr>statusCode = 400, result = Failure missing_fields\<rparr>, [])"
proof -
  have b: "ev_body (example_event (example_text ''0'' ''publisher-1'')) =
      Some (example_text ''0'' ''publisher-1'')"
    by (simp add: example_event_def)
  have p: "json_parse (example_env stored_segments (\<lambda>n. True)) (example_text ''0'' ''publisher-1'')
      = Some (example_request (JNum 0) ''publisher-1'')"
    by (simp add: example_env_def example_parse_simps)
  have m: "httpMethod (example_event (example_text ''0'' ''publisher-1'')) \<noteq> ''OPTIONS'' \<and>
      example_text ''0'' ''publisher-1'' \<noteq> []"
    by (simp add: example_event_def example_text_def)
  from falsy_required_field_rejected [OF b p] m show ?thesis
    by (simp add: example_fields)
qed

section \<open>A body that cannot be parsed\<close>

text \<open>
  Claim C4, as stated: a request whose body is absent or not JSON is answered with a
  400, like a missing field. Both handlers answer 500: the TypeScript one throws on an
  absent body and \<^verbatim>\<open>JSON.parse\<close> throws on a malformed one, inside the \<^verbatim>\<open>try\<close>
  whose \<^verbatim>\<open>catch\<close> answers 500; the JavaScript one reads a field of \<^verbatim>\<open>null\<close>.
\<close>

theorem absent_body_is_internal_error:
  "statusCode (fst (handler_ts (example_env stored_segments (\<lambda>n. True))
      \<lparr>httpMethod = ''POST'', ev_body = None\<rparr>)) = 500 \<and>
   statusCode (fst (handler_js (example_env stored_segments (\<lambda>n. True))
      \<lparr>httpMethod = ''POST'', ev_body = None\<rparr>)) = 500 \<and>
   statusCode (fst (handler_ts (example_env stored_segments (\<lambda>n. True))
      (example_event ''{id:''))) = 500"
  by (simp add: handler_ts_def handler_js_def internal_error_def errorResponse_def
      example_event_def example_env_def example_parse_def example_text_def quoted_def)

text \<open>
  Claim C4, amended: a request whose body is absent or does not parse is answered with
  500 and the message \<^verbatim>\<open>Internal server error\<close>, and the store is neither read nor
  written.
\<close>

theorem unparseable_body_internal_error:
  assumes "ev_body ev = None \<or> (\<exists>b. ev_body ev = Some b \<and> json_parse e b = None)"
  shows "(httpMethod ev \<noteq> ''OPTIONS'' \<longrightarrow> handler_ts e ev = (internal_error, [])) \<and>
         handler_js e ev = (internal_error, [])"
  using assms
  by (auto simp: handler_ts_def handler_js_def internal_error_def errorResponse_def)

theorem unparseable_body_internal_error_witness:
  "handler_ts (example_env stored_segments (\<lambda>n. True)) (example_event ''{id:'') =
     (internal_error, []) \<and>
   handler_js (example_env stored_segments (\<lambda>n. True)) (example_event ''{id:'') =
     (internal_error, [])"
proof -
  have "\<exists>b. ev_body (example_event ''{id:'') = Some b \<and>
      json_parse (example_env stored_segments (\<lambda>n. True)) b = None"
    by (simp add: example_event_def example_env_def example_parse_def example_text_def quoted_def)
  with unparseable_body_internal_error [of "example_event ''{id:''"
      "example_env stored_segments (\<lambda>n. True)"]
  show ?thesis by (simp add: example_event_def)
qed

section \<open>The mapping record\<close>




section \<open>The event record\<close>

text \<open>
  Claim C2, as stated: when the handler answers 200 to a valid request, the event record
  is stored under \<^verbatim>\<open><root>/<namespace or "publisher">/<domain>/<id>/<timestamp>.csv\<close>.
  Not always: the previous identifier is never checked, and the mapping record goes under
  \<^verbatim>\<open><root>/<namespace or "publisher">/mappings/<previousId>.csv\<close>. With the page address
  \<^verbatim>\<open>http://mappings/\<close>, the identifier \<^verbatim>\<open>publisher-2\<close>, the timestamp 5 and the previous
  identifier \<^verbatim>\<open>publisher-2/5\<close> both records get the same key; both handlers answer 200,
  and what is stored under the key of the event record is the mapping record.
\<close>

theorem event_record_replaced_by_mapping:
  "statusCode (fst (handler_ts overwrite_env (example_event overwrite_text))) = 200 \<and>
   puts_of (snd (handler_ts overwrite_env (example_event overwrite_text))) =
     [(''newspassid/publisher/mappings/publisher-2/5.csv'',
       csvContent_ts overwrite_request [Some ''segA''] [], True),
      (''newspassid/publisher/mappings/publisher-2/5.csv'',
       mappingContent overwrite_request, True)] \<and>
   store_after (\<lambda>k. None) (snd (handler_ts overwrite_env (example_event overwrite_text)))
     ''newspassid/publisher/mappings/publisher-2/5.csv'' =
     Some (mappingContent overwrite_request) \<and>
   mappingContent overwrite_request \<noteq> csvContent_ts overwrite_request [Some ''segA''] [] \<and>
   statusCode (fst (handler_js overwrite_env (example_event overwrite_text))) = 200 \<and>
   puts_of (snd (handler_js overwrite_env (example_event overwrite_text))) =
     [(''newspassid/publisher/mappings/publisher-2/5.csv'',
       csvContent_js overwrite_request [Some ''segA''] [], True),
      (''newspassid/publisher/mappings/publisher-2/5.csv'',
       mappingContent overwrite_request, True)] \<and>
   store_after (\<lambda>k. None) (snd (handler_js overwrite_env (example_event overwrite_text)))
     ''newspassid/publisher/mappings/publisher-2/5.csv'' =
     Some (mappingContent overwrite_request) \<and>
   mappingContent overwrite_request \<noteq> csvContent_js overwrite_request [Some ''segA''] []"
proof -
  let ?e = overwrite_env
  let ?d = overwrite_request
  let ?ev = "example_event overwrite_text"
  let ?key = "''newspassid/publisher/mappings/publisher-2/5.csv''"
  have f: "fld ?d ''id'' = JStr ''publisher-2''" "fld ?d ''timestamp'' = JNum 5"
      "fld ?d ''url'' = JStr ''http://mappings/''" "fld ?d ''consentString'' = JStr ''c''"
      "fld ?d ''previousId'' = JStr ''publisher-2/5''"
      "fld ?d ''publisherSegments'' = JUndefined"
    by (simp_all add: overwrite_request_def)
  have p: "json_parse ?e overwrite_text = Some ?d" "overwrite_text \<noteq> []"
    by (simp_all add: overwrite_env_def example_env_def overwrite_text_def)
  have acc: "accepted_ts ?e ?ev ?d" "accepted_js ?e ?ev ?d"
    by (simp_all add: accepted_ts_def accepted_js_def example_event_def f p
        required_present_def example_ids)
       (simp_all add: overwrite_request_def)
  have h: "handler_ts ?e ?ev = store_ts ?e ?d" "handler_js ?e ?ev = store_js ?e ?d"
    using acc by (simp_all add: handler_ts_accepted handler_js_accepted)
  have env: "ID_FOLDER ?e = ''newspassid''"
      "getDomainFromUrl ?e (JStr ''http://mappings/'') = ''mappings''"
      "s3_put_ok ?e 0" "s3_put_ok ?e (Suc 0)"
    by (simp_all add: ID_FOLDER_def getDomainFromUrl_def overwrite_env_def example_env_def)
  have g: "getValidSegments_ts ?e ''newspassid/segments.csv'' =
      (Some [Some ''segA''], [GetObject ''newspassid/segments.csv'' True])"
    by (simp add: getValidSegments_ts_def overwrite_env_def example_env_def stored_segments_def
        expires_after_def string_to_number_def plain_digits_def is_digit_def dec_val_def
        example_number_def segment_text_def)
  have gj: "getValidSegments_js ?e ''publisher'' ''mappings'' ''publisher-2'' =
      ([Some ''segA''],
       [GetObject (segmentsKey ?e ''publisher'' ''mappings'' ''publisher-2'') True])"
    by (simp add: getValidSegments_js_def overwrite_env_def example_env_def stored_segments_def
        example_segments_js)
  have keys: "fileKey ?e ''publisher'' ''mappings'' ?d = ?key"
      "mappingKey ?e ''publisher'' ?d = ?key"
    by (simp_all add: fileKey_def mappingKey_def env f num_str_5)
  have ts: "store_ts ?e ?d =
     (\<lparr>statusCode = 200, result = Success (JStr ''publisher-2'') [Some ''segA'']\<rparr>,
      [GetObject ''newspassid/segments.csv'' True,
       PutObject ?key (csvContent_ts ?d [Some ''segA''] []) True,
       PutObject ?key (mappingContent ?d) True])"
    using store_ts_written [of ?e "[Some ''segA'']" ?d "[]"]
    by (simp add: env g f keys)
  have js: "store_js ?e ?d =
     (\<lparr>statusCode = 200, result = Success (JStr ''publisher-2'') [Some ''segA'']\<rparr>,
      [GetObject (segmentsKey ?e ''publisher'' ''mappings'' ''publisher-2'') True,
       PutObject ?key (csvContent_js ?d [Some ''segA''] []) True,
       PutObject ?key (mappingContent ?d) True])"
    using store_js_written [of ?d "[]" ?e]
    by (simp add: env gj f keys example_ids publisher_joined_js_def)
  have ne: "mappingContent ?d \<noteq> csvContent_ts ?d [Some ''segA''] []"
      "mappingContent ?d \<noteq> csvContent_js ?d [Some ''segA''] []"
    by (simp_all add: mappingContent_def csvContent_ts_def csvContent_js_def csv_header_def)
  show ?thesis unfolding h ts js using ne by simp
qed

text \<open>
  Claim C2, amended: when a handler answers 200 (to a request that is not a preflight,
  which the TypeScript handler answers 200 without reading the body), the request passed
  validation and the event record was written, with success, under
  \<^verbatim>\<open><root>/<namespace or "publisher">/<domain>/<id>/<timestamp>.csv\<close>. The record is
  still under that key when the handler answers, unless the mapping record of the same
  request was written under the very same key.
\<close>

theorem ok_response_event_persisted:
  "(httpMethod ev \<noteq> ''OPTIONS'' \<and> statusCode (fst (handler_ts e ev)) = 200 \<longrightarrow>
      (\<exists>data segs pub key.
         accepted_ts e ev data \<and>
         key = ID_FOLDER e @ ''/publisher/'' @ getDomainFromUrl e (fld data ''url'') @ ''/'' @
               to_str (fld data ''id'') @ ''/'' @ to_str (fld data ''timestamp'') @ ''.csv'' \<and>
         PutObject key (csvContent_ts data segs pub) True \<in> set (snd (handler_ts e ev)) \<and>
         (\<not> (truthy (fld data ''previousId'') \<and> mappingKey e ''publisher'' data = key) \<longrightarrow>
            store_after objs (snd (handler_ts e ev)) key = Some (csvContent_ts data segs pub)))) \<and>
   (statusCode (fst (handler_js e ev)) = 200 \<longrightarrow>
      (\<exists>data segs pub key.
         accepted_js e ev data \<and>
         key = ID_FOLDER e @ ''/'' @ getNamespaceFromId (to_str (fld data ''id'')) @ ''/'' @
               getDomainFromUrl e (fld data ''url'') @ ''/'' @
               to_str (fld data ''id'') @ ''/'' @ to_str (fld data ''timestamp'') @ ''.csv'' \<and>
         PutObject key (csvContent_js data segs pub) True \<in> set (snd (handler_js e ev)) \<and>
         (\<not> (truthy (fld data ''previousId'') \<and>
              mappingKey e (getNamespaceFromId (to_str (fld data ''id''))) data = key) \<longrightarrow>
            store_after objs (snd (handler_js e ev)) key = Some (csvContent_js data segs pub))))"
proof (intro conjI impI)
  assume a: "httpMethod ev \<noteq> ''OPTIONS'' \<and> statusCode (fst (handler_ts e ev)) = 200"
  then obtain data where acc: "accepted_ts e ev data" using handler_ts_200 by blast
  then have h: "handler_ts e ev = store_ts e data" by (rule handler_ts_accepted)
  with a obtain segs pub where
    w: "fst (getValidSegments_ts e (ID_FOLDER e @ ''/segments.csv'')) = Some segs"
       "publisher_joined_ts (fld data ''publisherSegments'') = Some pub" "s3_put_ok e 0"
       "truthy (fld data ''previousId'') \<longrightarrow> s3_put_ok e 1"
    using store_ts_200 [of e data] by auto
  let ?key = "ID_FOLDER e @ ''/publisher/'' @ getDomainFromUrl e (fld data ''url'') @ ''/'' @
               to_str (fld data ''id'') @ ''/'' @ to_str (fld data ''timestamp'') @ ''.csv''"
  have k: "fileKey e ''publisher'' (getDomainFromUrl e (fld data ''url'')) data = ?key"
    by (simp add: fileKey_def)
  note sw = store_ts_written [OF w(1,2,3), unfolded k]
  have m: "PutObject ?key (csvContent_ts data segs pub) True \<in> set (snd (handler_ts e ev))"
    unfolding h sw by simp
  have s: "\<not> (truthy (fld data ''previousId'') \<and> mappingKey e ''publisher'' data = ?key) \<longrightarrow>
            store_after objs (snd (handler_ts e ev)) ?key = Some (csvContent_ts data segs pub)"
    unfolding h sw using w(4) by (auto simp: store_after_gets_ts)
  from acc m s show "\<exists>data segs pub key.
         accepted_ts e ev data \<and>
         key = ID_FOLDER e @ ''/publisher/'' @ getDomainFromUrl e (fld data ''url'') @ ''/'' @
               to_str (fld data ''id'') @ ''/'' @ to_str (fld data ''timestamp'') @ ''.csv'' \<and>
         PutObject key (csvContent_ts data segs pub) True \<in> set (snd (handler_ts e ev)) \<and>
         (\<not> (truthy (fld data ''previousId'') \<and> mappingKey e ''publisher'' data = key) \<longrightarrow>
            store_after objs (snd (handler_ts e ev)) key = Some (csvContent_ts data segs pub))"
    by blast
next
  assume a: "statusCode (fst (handler_js e ev)) = 200"
  then obtain data where acc: "accepted_js e ev data" using handler_js_200 by blast
  then have h: "handler_js e ev = store_js e data" by (rule handler_js_accepted)
  with a obtain pub where
    w: "publisher_joined_js (fld data ''publisherSegments'') = Some pub" "s3_put_ok e 0"
       "truthy (fld data ''previousId'') \<longrightarrow> s3_put_ok e 1"
    using store_js_200 [of e data] by auto
  let ?ns = "getNamespaceFromId (to_str (fld data ''id''))"
  let ?key = "ID_FOLDER e @ ''/'' @ ?ns @ ''/'' @
               getDomainFromUrl e (fld data ''url'') @ ''/'' @
               to_str (fld data ''id'') @ ''/'' @ to_str (fld data ''timestamp'') @ ''.csv''"
  let ?segs = "fst (getValidSegments_js e ?ns (getDomainFromUrl e (fld data ''url''))
                 (to_str (fld data ''id'')))"
  have k: "fileKey e ?ns (getDomainFromUrl e (fld data ''url'')) data = ?key"
    by (simp add: fileKey_def)
  note sw = store_js_written [OF w(1,2), unfolded k]
  have m: "PutObject ?key (csvContent_js data ?segs pub) True \<in> set (snd (handler_js e ev))"
    unfolding h sw by simp
  have s: "\<not> (truthy (fld data ''previousId'') \<and> mappingKey e ?ns data = ?key) \<longrightarrow>
            store_after objs (snd (handler_js e ev)) ?key = Some (csvContent_js data ?segs pub)"
    unfolding h sw using w(3) by (auto simp: store_after_gets_js)
  from acc m s show "\<exists>data segs pub key.
         accepted_js e ev data \<and>
         key = ID_FOLDER e @ ''/'' @ getNamespaceFromId (to_str (fld data ''id'')) @ ''/'' @
               getDomainFromUrl e (fld data ''url'') @ ''/'' @
               to_str (fld data ''id'') @ ''/'' @ to_str (fld data ''timestamp'') @ ''.csv'' \<and>
         PutObject key (csvContent_js data segs pub) True \<in> set (snd (handler_js e ev)) \<and>
         (\<not> (truthy (fld data ''previousId'') \<and>
              mappingKey e (getNamespaceFromId (to_str (fld data ''id''))) data = key) \<longrightarrow>
            store_after objs (snd (handler_js e ev)) key = Some (csvContent_js data segs pub))"
    by blast
qed


theorem ok_response_event_persisted_witness:
  "statusCode (fst (handler_ts (example_env stored_segments (\<lambda>n. True))
      (example_event (example_text ''5'' ''publisher-1'')))) = 200 \<and>
   statusCode (fst (handler_js (example_env stored_segments (\<lambda>n. True))
      (example_event (example_text ''5'' ''publisher-1'')))) = 200 \<and>
   (\<exists>segs pub.
      PutObject ''newspassid/publisher/example.com/publisher-2/5.csv''
        (csvContent_ts (example_request (JNum 5) ''publisher-1'') segs pub) True
        \<in> set (snd (handler_ts (example_env stored_segments (\<lambda>n. True))
                  (example_event (example_text ''5'' ''publisher-1'')))) \<and>
      store_after (\<lambda>k. None)
        (snd (handler_ts (example_env stored_segments (\<lambda>n. True))
                  (example_event (example_text ''5'' ''publisher-1''))))
        ''newspassid/publisher/example.com/publisher-2/5.csv'' =
      Some (csvContent_ts (example_request (JNum 5) ''publisher-1'') segs pub)) \<and>
   (\<exists>segs pub.
      PutObject ''newspassid/publisher/example.com/publisher-2/5.csv''
        (csvContent_js (example_request (JNum 5) ''publisher-1'') segs pub) True
        \<in> set (snd (handler_js (example_env stored_segments (\<lambda>n. True))
                  (example_event (example_text ''5'' ''publisher-1'')))) \<and>
      store_after (\<lambda>k. None)
        (snd (handler_js (example_env stored_segments (\<lambda>n. True))
                  (example_event (example_text ''5'' ''publisher-1''))))
        ''newspassid/publisher/example.com/publisher-2/5.csv'' =
      Some (csvContent_js (example_request (JNum 5) ''publisher-1'') segs pub))"
proof -
  let ?e = "example_env stored_segments (\<lambda>n. True)"
  let ?ev = "example_event (example_text ''5'' ''publisher-1'')"
  let ?d = "example_request (JNum 5) ''publisher-1''"
  let ?key = "''newspassid/publisher/example.com/publisher-2/5.csv''"
  have m: "httpMethod ?ev \<noteq> ''OPTIONS''" by (simp add: example_event_def)
  have s: "statusCode (fst (handler_ts ?e ?ev)) = 200" "statusCode (fst (handler_js ?e ?ev)) = 200"
    by (simp_all add: example_written_ts example_written_js)
  have d: "\<And>data. accepted_ts ?e ?ev data \<Longrightarrow> data = ?d"
      "\<And>data. accepted_js ?e ?ev data \<Longrightarrow> data = ?d"
    by (simp_all add: accepted_ts_def accepted_js_def example_event_def example_env_def
        example_parse_simps)
  have k: "ID_FOLDER ?e @ ''/publisher/'' @ getDomainFromUrl ?e (fld ?d ''url'') @ ''/'' @
               to_str (fld ?d ''id'') @ ''/'' @ to_str (fld ?d ''timestamp'') @ ''.csv'' = ?key"
      "ID_FOLDER ?e @ ''/'' @ getNamespaceFromId (to_str (fld ?d ''id'')) @ ''/'' @
               getDomainFromUrl ?e (fld ?d ''url'') @ ''/'' @
               to_str (fld ?d ''id'') @ ''/'' @ to_str (fld ?d ''timestamp'') @ ''.csv'' = ?key"
      "mappingKey ?e ''publisher'' ?d \<noteq> ?key"
    by (simp_all add: example_env_simps example_fields example_ids num_str_5 mappingKey_def)
  note t = ok_response_event_persisted [of ?ev ?e "\<lambda>k. None"]
  from t m s(1) obtain data segs pub key where
    a: "accepted_ts ?e ?ev data"
       "key = ID_FOLDER ?e @ ''/publisher/'' @ getDomainFromUrl ?e (fld data ''url'') @ ''/'' @
               to_str (fld data ''id'') @ ''/'' @ to_str (fld data ''timestamp'') @ ''.csv''"
       "PutObject key (csvContent_ts data segs pub) True \<in> set (snd (handler_ts ?e ?ev))"
       "\<not> (truthy (fld data ''previousId'') \<and> mappingKey ?e ''publisher'' data = key) \<longrightarrow>
            store_after (\<lambda>k. None) (snd (handler_ts ?e ?ev)) key =
              Some (csvContent_ts data segs pub)"
    by blast
  from a(1) have da: "data = ?d" by (rule d(1))
  from a(2) have ka: "key = ?key" unfolding da k(1) .
  have ts: "\<exists>segs pub.
      PutObject ?key (csvContent_ts ?d segs pub) True \<in> set (snd (handler_ts ?e ?ev)) \<and>
      store_after (\<lambda>k. None) (snd (handler_ts ?e ?ev)) ?key = Some (csvContent_ts ?d segs pub)"
    using a(3,4) k(3) unfolding da ka by blast
  from t s(2) obtain data segs pub key where
    b: "accepted_js ?e ?ev data"
       "key = ID_FOLDER ?e @ ''/'' @ getNamespaceFromId (to_str (fld data ''id'')) @ ''/'' @
               getDomainFromUrl ?e (fld data ''url'') @ ''/'' @
               to_str (fld data ''id'') @ ''/'' @ to_str (fld data ''timestamp'') @ ''.csv''"
       "PutObject key (csvContent_js data segs pub) True \<in> set (snd (handler_js ?e ?ev))"
       "\<not> (truthy (fld data ''previousId'') \<and>
            mappingKey ?e (getNamespaceFromId (to_str (fld data ''id''))) data = key) \<longrightarrow>
            store_after (\<lambda>k. None) (snd (handler_js ?e ?ev)) key =
              Some (csvContent_js data segs pub)"
    by blast
  from b(1) have db: "data = ?d" by (rule d(2))
  from b(2) have kb: "key = ?key" unfolding db k(2) .
  have ns: "getNamespaceFromId (to_str (fld ?d ''id'')) = ''publisher''"
    by (simp add: example_fields example_ids)
  have js: "\<exists>segs pub.
      PutObject ?key (csvContent_js ?d segs pub) True \<in> set (snd (handler_js ?e ?ev)) \<and>
      store_after (\<lambda>k. None) (snd (handler_js ?e ?ev)) ?key = Some (csvContent_js ?d segs pub)"
    using b(3,4) k(3) unfolding db kb ns by blast
  from s ts js show ?thesis by blast
qed

section \<open>A failed mapping write\<close>




section \<open>A failed read of the segment source\<close>




section \<open>Filtering the segments\<close>








end
